theory Spec2Isabelle
  imports Complex_Main
begin

section \<open>The UIEE scheduling engine: model of \<open>uiee_engine.cpp\<close>\<close>

text \<open>
  The engine is a C++ class whose methods read and write its member variables. Each
  method is modelled as a function from the members it reads (and its arguments) to
  the members it writes. A \<open>double\<close> is modelled by a \<^typ>\<open>real\<close>: comparisons are
  the ones the source writes, arithmetic is exact, and NaN and the infinities are
  outside the model. \<open>std::max\<close> and \<open>std::min\<close> are written out as the library
  defines them.
\<close>

definition std_max :: "real \<Rightarrow> real \<Rightarrow> real" where
  \<comment> \<open>\<open>std::max(a, b)\<close> is \<open>(a < b) ? b : a\<close>.\<close>
  "std_max a b = (if a < b then b else a)"

definition std_min :: "real \<Rightarrow> real \<Rightarrow> real" where
  \<comment> \<open>\<open>std::min(a, b)\<close> is \<open>(b < a) ? b : a\<close>.\<close>
  "std_min a b = (if b < a then b else a)"

subsection \<open>Pareto frontier\<close>

record ParetoPoint =
  performance :: real
  power_consumption :: real
  thermal_impact :: real
  parameters :: "real list"

definition dominates :: "ParetoPoint \<Rightarrow> ParetoPoint \<Rightarrow> bool" where
  \<comment> \<open>The condition of the inner \<open>if\<close> of \<open>calculateParetoFrontier\<close>: \<open>other\<close> dominates
      \<open>point\<close>.\<close>
  "dominates other point \<longleftrightarrow>
     performance other \<ge> performance point \<and>
     power_consumption other \<le> power_consumption point \<and>
     thermal_impact other \<le> thermal_impact point \<and>
     (performance other > performance point \<or>
      power_consumption other < power_consumption point \<or>
      thermal_impact other < thermal_impact point)"

fun is_dominated :: "nat \<Rightarrow> ParetoPoint \<Rightarrow> (nat \<times> ParetoPoint) list \<Rightarrow> bool" where
  \<comment> \<open>The inner loop over \<open>points\<close>. The source skips \<open>other\<close> when it is the same
      object as \<open>point\<close> (\<open>&point == &other\<close>), that is, when the positions agree.\<close>
  "is_dominated i point [] = False"
| "is_dominated i point ((j, other) # rest) =
     (if j = i then is_dominated i point rest
      else if dominates other point then True
      else is_dominated i point rest)"

fun frontier_loop ::
  "ParetoPoint list \<Rightarrow> (nat \<times> ParetoPoint) list \<Rightarrow> ParetoPoint list \<Rightarrow> ParetoPoint list" where
  \<comment> \<open>The outer loop: \<open>pareto_frontier.push_back(point)\<close> when no other point dominates.\<close>
  "frontier_loop points [] pareto_frontier = pareto_frontier"
| "frontier_loop points ((i, point) # rest) pareto_frontier =
     frontier_loop points rest
       (if is_dominated i point (enumerate 0 points) then pareto_frontier
        else pareto_frontier @ [point])"

definition calculateParetoFrontier :: "ParetoPoint list \<Rightarrow> ParetoPoint list" where
  "calculateParetoFrontier points = frontier_loop points (enumerate 0 points) []"

subsection \<open>Scene-weighted optimum\<close>

datatype SceneType = SCENE_GAME | SCENE_SOCIAL | SCENE_MEDIA | SCENE_PRODUCTIVITY | SCENE_UNKNOWN

definition scene_weights :: "SceneType \<Rightarrow> real \<times> real \<times> real" where
  \<comment> \<open>The \<open>switch (config_.current_scene)\<close> of \<open>findOptimalPoint\<close>: the values of
      \<open>performance_weight\<close>, \<open>power_weight\<close> and \<open>thermal_weight\<close> after it. The
      \<open>default\<close> branch keeps the initial values 0.4, 0.3, 0.3.\<close>
  "scene_weights scene =
     (case scene of
        SCENE_GAME \<Rightarrow> (0.6, 0.2, 0.2)
      | SCENE_SOCIAL \<Rightarrow> (0.3, 0.4, 0.3)
      | SCENE_MEDIA \<Rightarrow> (0.4, 0.3, 0.3)
      | SCENE_PRODUCTIVITY \<Rightarrow> (0.5, 0.3, 0.2)
      | SCENE_UNKNOWN \<Rightarrow> (0.4, 0.3, 0.3))"

definition score :: "SceneType \<Rightarrow> ParetoPoint \<Rightarrow> real" where
  "score scene point =
     (case scene_weights scene of
        (performance_weight, power_weight, thermal_weight') \<Rightarrow>
          performance_weight * performance point -
          power_weight * power_consumption point -
          thermal_weight' * thermal_impact point)"

fun optimal_loop ::
  "SceneType \<Rightarrow> ParetoPoint list \<Rightarrow> real \<times> ParetoPoint option \<Rightarrow> real \<times> ParetoPoint option" where
  \<comment> \<open>The loop of \<open>findOptimalPoint\<close> on the pair \<open>(best_score, optimal)\<close>. The local
      \<open>optimal\<close> is declared \<open>ParetoPoint optimal;\<close> with no initialiser, so until the
      first assignment its \<open>double\<close> members are indeterminate: that is \<open>None\<close>.\<close>
  "optimal_loop scene [] (best_score, optimal) = (best_score, optimal)"
| "optimal_loop scene (point # rest) (best_score, optimal) =
     (if score scene point > best_score
      then optimal_loop scene rest (score scene point, Some point)
      else optimal_loop scene rest (best_score, optimal))"

definition findOptimalPoint :: "SceneType \<Rightarrow> ParetoPoint list \<Rightarrow> ParetoPoint option" where
  \<comment> \<open>\<open>config_.current_scene\<close> is the first argument. \<open>ParetoPoint{}\<close> is the
      zero-valued point; \<open>best_score\<close> starts at \<open>-1.0\<close>. The result \<open>None\<close> is the
      never-assigned local \<open>optimal\<close>, returned as it is.\<close>
  "findOptimalPoint scene frontier =
     (if frontier = []
      then Some \<lparr>performance = 0, power_consumption = 0, thermal_impact = 0, parameters = []\<rparr>
      else snd (optimal_loop scene frontier (- 1, None)))"

subsection \<open>Composite experience score\<close>

record PerformanceMetrics =
  cpu_usage :: real
  memory_usage :: real
  gpu_usage :: real
  thermal_state :: real
  battery_level :: real
  responsiveness_score :: real
  fluency_score :: real
  efficiency_score :: real
  ces_score :: real

record Config =
  enable_engine :: bool
  scheduling_interval :: int
  optimization_enabled :: bool
  responsiveness_weight :: real
  fluency_weight :: real
  efficiency_weight :: real
  thermal_weight :: real
  current_scene :: SceneType
  \<comment> \<open>The member \<open>cto_config\<close> is read by none of the functions below and is left out.\<close>

definition calculateCES :: "Config \<Rightarrow> PerformanceMetrics \<Rightarrow> real" where
  "calculateCES config metrics =
     (let ces =
        responsiveness_weight config * responsiveness_score metrics +
        fluency_weight config * fluency_score metrics +
        efficiency_weight config * efficiency_score metrics -
        thermal_weight config * thermal_state metrics
      in std_max 0 (std_min 100 ces))"

subsection \<open>The engine's members\<close>

datatype LogLevel = INFO | ERROR | WARNING | PERF

record TaskInfo =
  name :: string
  pid :: int
  priority :: int
  app_type :: string
  cpu_affinity :: "real option"
  \<comment> \<open>\<open>None\<close>: the \<open>double\<close> member was never assigned (\<open>TaskInfo new_task;\<close>).\<close>
  is_foreground :: bool
  start_time :: nat

record EvolutionHistory =
  generation :: int
  best_fitness :: real
  average_fitness :: real
  diversity_score :: real
  timestamp :: nat
  best_parameters :: "real list"

record EvolutionConfig =
  alpha_weight :: real
  beta_weight :: real
  gamma_weight :: real
  population_size :: nat
  max_generations :: int
  mutation_rate :: real
  crossover_rate :: real
  convergence_threshold :: real

record PerformanceMonitor =
  cpu_usage_samples :: "real list"
  memory_usage_samples :: "real list"
  \<comment> \<open>The two arrays \<open>double[10]\<close>.\<close>
  sample_index :: nat
  avg_cpu_usage :: real
  avg_memory_usage :: real
  is_high_performance_mode :: bool

record AdaptiveSamplingConfig =
  base_sampling_interval :: real
  min_sampling_interval :: real
  max_sampling_interval :: real
  cpu_threshold_high :: real
  cpu_threshold_low :: real
  memory_threshold_high :: real
  memory_threshold_low :: real
  adaptation_window :: int

record PerformanceOptimizationConfig =
  enable_cache :: bool
  enable_adaptive_sampling :: bool
  enable_thread_pool :: bool
  enable_memory_pool :: bool
  enable_performance_monitoring :: bool
  cache_size :: nat
  thread_pool_size :: nat
  memory_pool_block_size :: nat
  performance_threshold :: real

record Engine =
  running :: bool
  main_thread_joinable :: bool
  monitor_thread_joinable :: bool
  config :: Config
  active_tasks :: "TaskInfo list"
  performance_history :: "PerformanceMetrics list"
  evolution_active :: bool
  has_population_manager :: bool
  \<comment> \<open>Whether the pointer \<open>population_manager_\<close> is non-null.\<close>
  current_generation :: int
  evolution_history :: "EvolutionHistory list"
  evolution_config :: EvolutionConfig
  performance_monitor :: "PerformanceMonitor option"
  \<comment> \<open>The pointer \<open>performance_monitor_\<close>: \<open>None\<close> when null.\<close>
  adaptive_config :: AdaptiveSamplingConfig
  optimization_config :: PerformanceOptimizationConfig
  log :: "(LogLevel \<times> string) list"
  \<comment> \<open>The lines written by \<open>logInfo\<close>, \<open>logError\<close> and \<open>logWarning\<close>, oldest first,
      without their timestamps; the message texts are English renderings of the
      source's literals, and numbers formatted into a message are left out.\<close>

definition logInfo :: "string \<Rightarrow> Engine \<Rightarrow> Engine" where
  "logInfo message e = e\<lparr>log := log e @ [(INFO, message)]\<rparr>"

definition logError :: "string \<Rightarrow> Engine \<Rightarrow> Engine" where
  "logError message e = e\<lparr>log := log e @ [(ERROR, message)]\<rparr>"

definition logWarning :: "string \<Rightarrow> Engine \<Rightarrow> Engine" where
  "logWarning message e = e\<lparr>log := log e @ [(WARNING, message)]\<rparr>"

definition initial_engine :: Engine where
  \<comment> \<open>The members after construction: the constructor's initialiser list, the default
      member initialisers of \<open>Config\<close> and \<open>EvolutionConfig\<close>, and the constructors of
      \<open>PerformanceMonitor\<close>, \<open>AdaptiveSamplingConfig\<close> and
      \<open>PerformanceOptimizationConfig\<close>. The constructor's own log lines are left out.\<close>
  "initial_engine =
     \<lparr>running = False, main_thread_joinable = False, monitor_thread_joinable = False,
      config = \<lparr>enable_engine = True, scheduling_interval = 5, optimization_enabled = True,
                responsiveness_weight = 0.3, fluency_weight = 0.3, efficiency_weight = 0.2,
                thermal_weight = 0.2, current_scene = SCENE_UNKNOWN\<rparr>,
      active_tasks = [], performance_history = [],
      evolution_active = False, has_population_manager = True, current_generation = 0,
      evolution_history = [],
      evolution_config = \<lparr>alpha_weight = 0.4, beta_weight = 0.3, gamma_weight = 0.3,
                          population_size = 50, max_generations = 1000,
                          mutation_rate = 0.1, crossover_rate = 0.8,
                          convergence_threshold = 1 / 1000000\<rparr>,
      performance_monitor =
        Some \<lparr>cpu_usage_samples = replicate 10 0, memory_usage_samples = replicate 10 0,
              sample_index = 0, avg_cpu_usage = 0, avg_memory_usage = 0,
              is_high_performance_mode = False\<rparr>,
      adaptive_config = \<lparr>base_sampling_interval = 30, min_sampling_interval = 5,
                         max_sampling_interval = 120, cpu_threshold_high = 80,
                         cpu_threshold_low = 20, memory_threshold_high = 85,
                         memory_threshold_low = 30, adaptation_window = 10\<rparr>,
      optimization_config = \<lparr>enable_cache = True, enable_adaptive_sampling = True,
                             enable_thread_pool = True, enable_memory_pool = True,
                             enable_performance_monitoring = True, cache_size = 100,
                             thread_pool_size = 4, memory_pool_block_size = 1024,
                             performance_threshold = 0.1\<rparr>,
      log = []\<rparr>"

subsection \<open>Start and stop\<close>

definition start :: "Engine \<Rightarrow> bool \<times> Engine" where
  \<comment> \<open>The return value and the members after \<open>start()\<close>. The two threads it creates
      run \<open>mainLoop\<close> and \<open>monitoringLoop\<close>; what they do afterwards is not part of
      this function.\<close>
  "start e =
     (if running e then (False, logError ''engine is already running'' e)
      else if \<not> enable_engine (config e) then (False, logInfo ''engine disabled by configuration'' e)
      else (True, logInfo ''UIEE core engine started''
                    (e\<lparr>running := True, main_thread_joinable := True,
                       monitor_thread_joinable := True\<rparr>)))"

definition stop :: "Engine \<Rightarrow> Engine" where
  \<comment> \<open>\<open>stop()\<close>: return at once when not running; otherwise clear the flag, join both
      threads (a joined thread is no longer joinable) and log the shutdown.\<close>
  "stop e =
     (if \<not> running e then e
      else logInfo ''UIEE core engine stopped''
             (e\<lparr>running := False, main_thread_joinable := False,
                monitor_thread_joinable := False\<rparr>))"

subsection \<open>History buffers\<close>

definition MAX_HISTORY_SIZE :: nat where
  "MAX_HISTORY_SIZE = 1000"

definition mainLoop_record :: "PerformanceMetrics \<Rightarrow> Engine \<Rightarrow> Engine" where
  \<comment> \<open>The history lines of one \<open>mainLoop\<close> tick, for the \<open>metrics\<close> just sampled:
      erase the first entry when the size has reached \<open>MAX_HISTORY_SIZE\<close>, then
      \<open>push_back\<close>.\<close>
  "mainLoop_record metrics e =
     (let h = (if length (performance_history e) \<ge> MAX_HISTORY_SIZE
               then tl (performance_history e) else performance_history e)
      in e\<lparr>performance_history := h @ [metrics]\<rparr>)"

definition updateEvolutionState :: "EvolutionHistory \<Rightarrow> Engine \<Rightarrow> Engine" where
  \<comment> \<open>\<open>updateEvolutionState()\<close>. The first argument carries the fields that the source
      fills from the population manager (whose methods have no body in the source
      files) and the clock; \<open>generation\<close> is set from \<open>current_generation_\<close>. Then
      \<open>push_back\<close>, and erase the first entry when the size exceeds 100.\<close>
  "updateEvolutionState from_population e =
     (if \<not> evolution_active e \<or> \<not> has_population_manager e then e
      else
        let history = from_population\<lparr>generation := current_generation e\<rparr>;
            h = evolution_history e @ [history]
        in e\<lparr>evolution_history := (if length h > 100 then tl h else h)\<rparr>)"

definition startLongTermEvolution :: "Engine \<Rightarrow> Engine" where
  \<comment> \<open>\<open>startLongTermEvolution()\<close>: the thread it detaches runs \<open>evolutionMainLoop\<close>,
      which calls \<open>updateEvolutionState\<close> once per generation.\<close>
  "startLongTermEvolution e =
     (if evolution_active e then logInfo ''long-term evolution is already running'' e
      else logInfo ''long-term evolution started''
             (e\<lparr>evolution_active := True, current_generation := 0\<rparr>))"

definition loadEvolutionData ::
  "(string \<Rightarrow> string list option) \<Rightarrow> (string \<Rightarrow> EvolutionHistory) \<Rightarrow> string \<Rightarrow> Engine
     \<Rightarrow> Engine" where
  \<comment> \<open>\<open>loadEvolutionData(filepath)\<close>. \<open>files p\<close> is the list of lines of the file at
      path \<open>p\<close> when it can be opened. The first line (the header) is read and
      dropped, \<open>evolution_history_\<close> is cleared, and every further line gives one
      \<open>push_back\<close>, with no test of the size. \<open>read_entry line\<close> is the entry built
      for a line: the fields the four stream extractions leave, and the clock.\<close>
  "loadEvolutionData files read_entry filepath e =
     (case files filepath of
        None \<Rightarrow> logError (''cannot load evolution data file: '' @ filepath) e
      | Some ls \<Rightarrow>
          logInfo (''evolution data loaded from file: '' @ filepath)
            (e\<lparr>evolution_history := map read_entry (tl ls)\<rparr>))"

subsection \<open>Convergence check\<close>

definition checkEvolutionConvergence :: "Engine \<Rightarrow> Engine" where
  "checkEvolutionConvergence e =
     (if \<not> has_population_manager e \<or> length (evolution_history e) < 10 then e
      else
        let recent_best = best_fitness (last (evolution_history e));
            previous_best =
              best_fitness (evolution_history e ! (length (evolution_history e) - 10))
        in if \<bar>recent_best - previous_best\<bar> < convergence_threshold (evolution_config e)
           then (logInfo ''evolution converged, stopping the evolution process'' e)
                  \<lparr>evolution_active := False\<rparr>
           else e)"

definition evolution_loop_condition :: "Engine \<Rightarrow> bool" where
  \<comment> \<open>The \<open>while\<close> condition of \<open>evolutionMainLoop\<close> and \<open>evolutionMainLoopOptimized\<close>.\<close>
  "evolution_loop_condition e \<longleftrightarrow>
     evolution_active e \<and> current_generation e < max_generations (evolution_config e)"

subsection \<open>Adaptive sampling\<close>






subsection \<open>Task registry\<close>

definition addTask :: "TaskInfo \<Rightarrow> Engine \<Rightarrow> Engine" where
  \<comment> \<open>\<open>std::find_if\<close> for an entry with the task's pid; \<open>push_back\<close> when there is none.\<close>
  "addTask task e =
     (case find (\<lambda>t. pid t = pid task) (active_tasks e) of
        None \<Rightarrow> logInfo (''add task: '' @ name task) (e\<lparr>active_tasks := active_tasks e @ [task]\<rparr>)
      | Some t \<Rightarrow> e)"

fun erase_first :: "('a \<Rightarrow> bool) \<Rightarrow> 'a list \<Rightarrow> 'a list" where
  \<comment> \<open>\<open>erase(it)\<close> for the iterator \<open>it\<close> that \<open>std::find_if\<close> returns: the first match
      is removed.\<close>
  "erase_first P [] = []"
| "erase_first P (x # xs) = (if P x then xs else x # erase_first P xs)"

definition removeTask :: "int \<Rightarrow> Engine \<Rightarrow> Engine" where
  "removeTask p e =
     (case find (\<lambda>task. pid task = p) (active_tasks e) of
        None \<Rightarrow> e
      | Some t \<Rightarrow>
          (logInfo (''remove task: '' @ name t) e)
            \<lparr>active_tasks := erase_first (\<lambda>task. pid task = p) (active_tasks e)\<rparr>)"

definition getActiveTasks :: "Engine \<Rightarrow> TaskInfo list" where
  "getActiveTasks e = active_tasks e"

fun detect_new_tasks :: "(int \<Rightarrow> string) \<Rightarrow> (int \<Rightarrow> nat) \<Rightarrow> int list \<Rightarrow> Engine \<Rightarrow> Engine" where
  \<comment> \<open>The loop \<open>for (int pid : current_pids)\<close> of \<open>monitoringLoop\<close>. \<open>getProcessName\<close>
      reads the system; \<open>clock p\<close> is the time read when pid \<open>p\<close> is met. The new
      task's \<open>cpu_affinity\<close> is never assigned.\<close>
  "detect_new_tasks getProcessName clock [] e = e"
| "detect_new_tasks getProcessName clock (p # pids) e =
     detect_new_tasks getProcessName clock pids
       (if list_ex (\<lambda>task. pid task = p) (active_tasks e) then e
        else
          let new_task = \<lparr>name = getProcessName p, pid = p, priority = 0,
                          app_type = ''unknown'', cpu_affinity = None,
                          is_foreground = False, start_time = clock p\<rparr>
          in logInfo (''new task detected: '' @ name new_task)
               (e\<lparr>active_tasks := active_tasks e @ [new_task]\<rparr>))"

definition monitoringLoop_tick ::
  "(int \<Rightarrow> string) \<Rightarrow> (int \<Rightarrow> nat) \<Rightarrow> int list \<Rightarrow> Engine \<Rightarrow> Engine" where
  \<comment> \<open>One pass of the \<open>try\<close> block of \<open>monitoringLoop\<close>, with \<open>current_pids\<close> the
      result of \<open>getRunningPIDs()\<close>: the tasks whose pid is not among them are removed
      (\<open>remove_if\<close> and \<open>erase\<close>), then the new pids are added.\<close>
  "monitoringLoop_tick getProcessName clock current_pids e =
     detect_new_tasks getProcessName clock current_pids
       (e\<lparr>active_tasks := filter (\<lambda>task. pid task \<in> set current_pids) (active_tasks e)\<rparr>)"

definition updateTaskPriorities :: "Engine \<Rightarrow> Engine" where
  \<comment> \<open>The only other writer of \<open>active_tasks_\<close>: it sets each task's \<open>priority\<close>
      from the scene and the task's \<open>app_type\<close>.\<close>
  "updateTaskPriorities e =
     e\<lparr>active_tasks :=
         map (\<lambda>task. task\<lparr>priority :=
                (case current_scene (config e) of
                   SCENE_GAME \<Rightarrow> if app_type task = ''game'' then 10 else 5
                 | SCENE_SOCIAL \<Rightarrow> if app_type task = ''social'' then 8 else 3
                 | SCENE_MEDIA \<Rightarrow> if app_type task = ''media'' then 7 else 4
                 | SCENE_PRODUCTIVITY \<Rightarrow> if app_type task = ''productivity'' then 9 else 6
                 | SCENE_UNKNOWN \<Rightarrow> 5)\<rparr>)
           (active_tasks e)\<rparr>"

subsection \<open>Nash equilibrium iteration\<close>


definition expected_payoff :: "real list list \<Rightarrow> real list \<Rightarrow> nat \<Rightarrow> nat \<Rightarrow> real" where
  \<comment> \<open>The loop over \<open>j\<close> that accumulates \<open>expected_payoff\<close> for row \<open>i\<close>.\<close>
  "expected_payoff payoff_matrix strats num_strategies i =
     foldl (\<lambda>acc j. acc + strats ! j * (payoff_matrix ! i ! j)) 0 [0..<num_strategies]"





subsection \<open>Configuration file\<close>

datatype exception = invalid_argument | out_of_range

definition is_blank :: "char \<Rightarrow> bool" where
  \<comment> \<open>The four characters that the trimming calls pass: space, tab, carriage return
      and newline.\<close>
  "is_blank c \<longleftrightarrow> c = CHR '' '' \<or> c = CHR 0x09 \<or> c = CHR 0x0D \<or> c = CHR 0x0A"

definition trim :: "string \<Rightarrow> string" where
  \<comment> \<open>\<open>s.erase(0, s.find_first_not_of(blanks))\<close> followed by
      \<open>s.erase(s.find_last_not_of(blanks) + 1)\<close>.\<close>
  "trim s = rev (dropWhile is_blank (rev (dropWhile is_blank s)))"

definition is_space :: "char \<Rightarrow> bool" where
  \<comment> \<open>\<open>isspace\<close> in the C locale: the space and the codes 9 to 13.\<close>
  "is_space c \<longleftrightarrow> c = CHR '' '' \<or> (9 \<le> (of_char c :: nat) \<and> (of_char c :: nat) \<le> 13)"

definition is_digit :: "char \<Rightarrow> bool" where
  "is_digit c \<longleftrightarrow> 48 \<le> (of_char c :: nat) \<and> (of_char c :: nat) \<le> 57"

definition stoi :: "string \<Rightarrow> exception + int" where
  \<comment> \<open>\<open>std::stoi(str)\<close> in base 10, as the C++ standard defines it through \<open>strtol\<close>:
      leading white space, an optional sign, then the longest run of digits;
      \<open>std::invalid_argument\<close> when there is no digit, \<open>std::out_of_range\<close> when the
      value does not fit an \<open>int\<close>. Characters after the digits are ignored.\<close>
  "stoi str =
     (let s = dropWhile is_space str;
          negative = (s \<noteq> [] \<and> hd s = CHR ''-'');
          s' = (if s \<noteq> [] \<and> (hd s = CHR ''-'' \<or> hd s = CHR ''+'') then tl s else s);
          digits = takeWhile is_digit s';
          magnitude = foldl (\<lambda>n c. 10 * n + (int (of_char c) - 48)) 0 digits;
          v = (if negative then - magnitude else magnitude)
      in if digits = [] then Inl invalid_argument
         else if v < - 2147483648 \<or> 2147483647 < v then Inl out_of_range
         else Inr v)"

definition parse_line :: "(string \<Rightarrow> exception + real) \<Rightarrow> string \<Rightarrow> Config \<Rightarrow> exception + Config" where
  \<comment> \<open>The body of the \<open>while (std::getline(configFile, line))\<close> loop of \<open>loadConfig\<close>
      on \<open>config_\<close>. \<open>stod\<close> stands for \<open>std::stod\<close>. There is no \<open>try\<close> in
      \<open>loadConfig\<close>: an exception of \<open>std::stoi\<close> or \<open>std::stod\<close> leaves the function.\<close>
  "parse_line stod line cfg =
     (if line = [] \<or> hd line = CHR ''#'' then Inr cfg
      else if CHR ''='' \<notin> set line then Inr cfg
      else
        let key = trim (takeWhile (\<lambda>c. c \<noteq> CHR ''='') line);
            val = trim (tl (dropWhile (\<lambda>c. c \<noteq> CHR ''='') line))
        in if key = ''enable_engine'' then Inr (cfg\<lparr>enable_engine := (val = ''true'')\<rparr>)
           else if key = ''scheduling_interval'' then
             (case stoi val of Inl ex \<Rightarrow> Inl ex
              | Inr n \<Rightarrow> Inr (cfg\<lparr>scheduling_interval := n\<rparr>))
           else if key = ''optimization_enabled'' then
             Inr (cfg\<lparr>optimization_enabled := (val = ''true'')\<rparr>)
           else if key = ''responsiveness_weight'' then
             (case stod val of Inl ex \<Rightarrow> Inl ex
              | Inr x \<Rightarrow> Inr (cfg\<lparr>responsiveness_weight := x\<rparr>))
           else if key = ''fluency_weight'' then
             (case stod val of Inl ex \<Rightarrow> Inl ex
              | Inr x \<Rightarrow> Inr (cfg\<lparr>fluency_weight := x\<rparr>))
           else if key = ''efficiency_weight'' then
             (case stod val of Inl ex \<Rightarrow> Inl ex
              | Inr x \<Rightarrow> Inr (cfg\<lparr>efficiency_weight := x\<rparr>))
           else if key = ''thermal_weight'' then
             (case stod val of Inl ex \<Rightarrow> Inl ex
              | Inr x \<Rightarrow> Inr (cfg\<lparr>thermal_weight := x\<rparr>))
           else Inr cfg)"

fun parse_lines ::
  "(string \<Rightarrow> exception + real) \<Rightarrow> string list \<Rightarrow> Config \<Rightarrow> exception option \<times> Config" where
  \<comment> \<open>The loop over the lines of the file. The result is the exception that ended it,
      if any, and \<open>config_\<close> as it then stands: the lines before are applied, the
      lines after are not read.\<close>
  "parse_lines stod [] cfg = (None, cfg)"
| "parse_lines stod (line # rest) cfg =
     (case parse_line stod line cfg of
        Inl ex \<Rightarrow> (Some ex, cfg)
      | Inr cfg' \<Rightarrow> parse_lines stod rest cfg')"

fun find_str :: "string \<Rightarrow> string \<Rightarrow> nat option" where
  \<comment> \<open>\<open>s.find(pat)\<close>: the first position where \<open>pat\<close> occurs, \<open>None\<close> for \<open>npos\<close>.\<close>
  "find_str pat [] = (if pat = [] then Some 0 else None)"
| "find_str pat (c # cs) =
     (if take (length pat) (c # cs) = pat then Some 0
      else map_option Suc (find_str pat cs))"

definition loadConfig ::
  "(string \<Rightarrow> string list option) \<Rightarrow> (string \<Rightarrow> exception + real) \<Rightarrow> string \<Rightarrow> Engine
     \<Rightarrow> exception option \<times> Engine" where
  \<comment> \<open>\<open>loadConfig(configPath)\<close>. \<open>files p\<close> is the list of lines of the file at path
      \<open>p\<close> when it can be opened. The first component of the result is the exception
      that propagates to the caller, if any.\<close>
  "loadConfig files stod configPath e =
     (let primary_path =
            (case find_str ''/conf/'' configPath of
               None \<Rightarrow> configPath
             | Some conf_pos \<Rightarrow>
                 take conf_pos configPath @ ''/data/config/'' @ drop (conf_pos + 6) configPath)
      in case (case files primary_path of
                 Some ls \<Rightarrow> Some (ls, primary_path)
               | None \<Rightarrow> (case files configPath of
                            Some ls \<Rightarrow> Some (ls, configPath)
                          | None \<Rightarrow> None)) of
           None \<Rightarrow>
             (None, logError (''cannot open config file: '' @ primary_path @ '' and '' @ configPath) e)
         | Some (ls, used) \<Rightarrow>
             (case parse_lines stod ls (config e) of
                (Some ex, cfg) \<Rightarrow>
                  (Some ex, (logInfo (''using config file: '' @ used) e)\<lparr>config := cfg\<rparr>)
              | (None, cfg) \<Rightarrow>
                  (None, logInfo (''config file loaded: '' @ configPath)
                           ((logInfo (''using config file: '' @ used) e)\<lparr>config := cfg\<rparr>))))"

subsection \<open>Concrete inputs of the examples\<close>

definition eleven_generations :: "EvolutionHistory list" where
  \<comment> \<open>Eleven history entries of generations 0 to 10; the best fitness is 1 in
      generations 0 and 10 and 0 in between.\<close>
  "eleven_generations =
     map (\<lambda>k. \<lparr>generation = int k, best_fitness = (if k = 0 \<or> k = 10 then 1 else 0),
               average_fitness = 0, diversity_score = 0, timestamp = k, best_parameters = []\<rparr>)
       [0..<11]"

definition ten_flat_generations :: "EvolutionHistory list" where
  \<comment> \<open>Ten history entries of generations 0 to 9 with the same best fitness.\<close>
  "ten_flat_generations =
     map (\<lambda>k. \<lparr>generation = int k, best_fitness = 2, average_fitness = 1,
               diversity_score = 0, timestamp = k, best_parameters = []\<rparr>)
       [0..<10]"



definition evolution_file_101 :: "string \<Rightarrow> string list option" where
  \<comment> \<open>A file system with one evolution data file: the header line of
      \<open>saveEvolutionData\<close> and 101 data lines.\<close>
  "evolution_file_101 =
     (\<lambda>p. if p = ''/data/adb/modules/uiee_smart_engine/data/evolution.csv''
          then Some (''generation,best_fitness,average_fitness,diversity_score,timestamp'' #
                     replicate 101 ''7 0.5 0.4 0.1'')
          else None)"

definition two_tasks :: Engine where
  \<comment> \<open>The test task of \<open>main.cpp\<close> and one more task.\<close>
  "two_tasks =
     initial_engine\<lparr>active_tasks :=
       [\<lparr>name = ''test_app'', pid = 1234, priority = 5, app_type = ''game'',
         cpu_affinity = None, is_foreground = True, start_time = 0\<rparr>,
        \<lparr>name = ''init'', pid = 1, priority = 0, app_type = ''unknown'',
         cpu_affinity = None, is_foreground = False, start_time = 0\<rparr>]\<rparr>"

section \<open>Properties\<close>

subsection \<open>Pareto frontier\<close>

lemma dominates_irrefl: "\<not> dominates p p"
  by (simp add: dominates_def)

lemma dominates_trans: "dominates a b \<Longrightarrow> dominates b c \<Longrightarrow> dominates a c"
  by (auto simp: dominates_def)

lemma is_dominated_iff:
  "is_dominated i p ips \<longleftrightarrow> (\<exists>(j, q) \<in> set ips. j \<noteq> i \<and> dominates q p)"
  by (induction i p ips rule: is_dominated.induct) auto

lemma is_dominated_enumerate:
  assumes "(i, p) \<in> set (enumerate 0 points)"
  shows "is_dominated i p (enumerate 0 points) \<longleftrightarrow> (\<exists>q \<in> set points. dominates q p)"
proof
  assume "is_dominated i p (enumerate 0 points)"
  then obtain j q where "(j, q) \<in> set (enumerate 0 points)" "dominates q p"
    by (auto simp: is_dominated_iff)
  then show "\<exists>q \<in> set points. dominates q p"
    by (auto simp: in_set_enumerate_eq)
next
  assume "\<exists>q \<in> set points. dominates q p"
  then obtain q where q: "q \<in> set points" "dominates q p" by blast
  then obtain j where j: "j < length points" "points ! j = q"
    by (auto simp: in_set_conv_nth)
  have "j \<noteq> i"
  proof
    assume "j = i"
    with assms j have "q = p" by (simp add: in_set_enumerate_eq)
    with q show False by (simp add: dominates_irrefl)
  qed
  with j q show "is_dominated i p (enumerate 0 points)"
    by (auto simp: is_dominated_iff in_set_enumerate_eq intro!: bexI[of _ "(j, q)"])
qed

lemma frontier_loop_filter:
  "frontier_loop points ips acc =
     acc @ map snd (filter (\<lambda>(i, p). \<not> is_dominated i p (enumerate 0 points)) ips)"
  by (induction points ips acc rule: frontier_loop.induct) auto

lemma filter_snd_enumerate:
  "map snd (filter (\<lambda>(i, p). Q p) (enumerate n xs)) = filter Q xs"
  by (induction xs arbitrary: n) auto

lemma calculateParetoFrontier_filter:
  "calculateParetoFrontier points = filter (\<lambda>p. \<not> (\<exists>q \<in> set points. dominates q p)) points"
proof -
  have "filter (\<lambda>(i, p). \<not> is_dominated i p (enumerate 0 points)) (enumerate 0 points)
      = filter (\<lambda>(i, p). \<not> (\<exists>q \<in> set points. dominates q p)) (enumerate 0 points)"
    by (rule filter_cong) (auto simp: is_dominated_enumerate)
  then show ?thesis
    by (simp add: calculateParetoFrontier_def frontier_loop_filter filter_snd_enumerate)
qed

lemma dominates_merit:
  "dominates q p \<Longrightarrow>
     performance p - power_consumption p - thermal_impact p
       < performance q - power_consumption q - thermal_impact q"
  by (auto simp: dominates_def)

lemma dominated_has_frontier_dominator:
  assumes "q \<in> set points" "dominates q p"
  shows "\<exists>r \<in> set points. dominates r p \<and> \<not> (\<exists>s \<in> set points. dominates s r)"
proof -
  let ?S = "{r \<in> set points. dominates r p}"
  define merit where "merit = (\<lambda>r::ParetoPoint. performance r - power_consumption r - thermal_impact r)"
  have fin: "finite ?S" and ne: "?S \<noteq> {}" using assms by auto
  have "Max (merit ` ?S) \<in> merit ` ?S"
    using fin ne by (intro Max_in) auto
  then obtain r where r0: "r \<in> ?S" "merit r = Max (merit ` ?S)" by auto
  have "\<forall>s \<in> ?S. merit s \<le> Max (merit ` ?S)"
    using fin by (auto intro!: Max_ge)
  with r0 have r: "r \<in> ?S" "\<forall>s \<in> ?S. merit s \<le> merit r" by auto
  have "\<not> (\<exists>s \<in> set points. dominates s r)"
  proof
    assume "\<exists>s \<in> set points. dominates s r"
    then obtain s where s: "s \<in> set points" "dominates s r" by blast
    with r(1) have "s \<in> ?S" by (auto intro: dominates_trans)
    with r(2) have "merit s \<le> merit r" by blast
    with dominates_merit[OF s(2)] show False by (simp add: merit_def)
  qed
  with r(1) show ?thesis by blast
qed

text \<open>
  C1. \<open>calculateParetoFrontier\<close> returns, in input order, exactly the input points that
  no input point dominates. Hence no returned point dominates another returned point,
  and every input point that is left out is dominated by some returned point.
\<close>

theorem pareto_frontier_correct:
  "calculateParetoFrontier points = filter (\<lambda>p. \<not> (\<exists>q \<in> set points. dominates q p)) points
   \<and> (\<forall>a \<in> set (calculateParetoFrontier points).
        \<forall>b \<in> set (calculateParetoFrontier points). \<not> dominates a b)
   \<and> (\<forall>p \<in> set points. p \<notin> set (calculateParetoFrontier points) \<longrightarrow>
        (\<exists>q \<in> set (calculateParetoFrontier points). dominates q p))"
proof (intro conjI ballI impI)
  show "calculateParetoFrontier points = filter (\<lambda>p. \<not> (\<exists>q \<in> set points. dominates q p)) points"
    by (rule calculateParetoFrontier_filter)
next
  fix a b
  assume "a \<in> set (calculateParetoFrontier points)" "b \<in> set (calculateParetoFrontier points)"
  then show "\<not> dominates a b"
    by (auto simp: calculateParetoFrontier_filter)
next
  fix p
  assume "p \<in> set points" "p \<notin> set (calculateParetoFrontier points)"
  then obtain q where "q \<in> set points" "dominates q p"
    by (auto simp: calculateParetoFrontier_filter)
  from dominated_has_frontier_dominator[OF this]
  show "\<exists>q \<in> set (calculateParetoFrontier points). dominates q p"
    by (auto simp: calculateParetoFrontier_filter)
qed

theorem pareto_frontier_correct_witness:
  "calculateParetoFrontier
     [\<lparr>performance = 3, power_consumption = 1, thermal_impact = 1, parameters = []\<rparr>,
      \<lparr>performance = 2, power_consumption = 2, thermal_impact = 2, parameters = []\<rparr>,
      \<lparr>performance = 5, power_consumption = 4, thermal_impact = 1, parameters = []\<rparr>]
   = [\<lparr>performance = 3, power_consumption = 1, thermal_impact = 1, parameters = []\<rparr>,
      \<lparr>performance = 5, power_consumption = 4, thermal_impact = 1, parameters = []\<rparr>]
   \<and> dominates \<lparr>performance = 3, power_consumption = 1, thermal_impact = 1, parameters = []\<rparr>
        \<lparr>performance = 2, power_consumption = 2, thermal_impact = 2, parameters = []\<rparr>"
  using pareto_frontier_correct
    [of "[\<lparr>performance = 3, power_consumption = 1, thermal_impact = 1, parameters = []\<rparr>,
          \<lparr>performance = 2, power_consumption = 2, thermal_impact = 2, parameters = []\<rparr>,
          \<lparr>performance = 5, power_consumption = 4, thermal_impact = 1, parameters = []\<rparr>]"]
  by (simp add: dominates_def)

subsection \<open>Scene-weighted optimum\<close>

lemma optimal_loop_result:
  "optimal_loop scene frontier (b, opt) = (b', opt') \<Longrightarrow>
     (b' = b \<and> opt' = opt \<and> (\<forall>q \<in> set frontier. score scene q \<le> b)) \<or>
     (\<exists>p \<in> set frontier. opt' = Some p \<and> b' = score scene p \<and> b < b' \<and>
        (\<forall>q \<in> set frontier. score scene q \<le> b'))"
proof (induction frontier arbitrary: b opt)
  case Nil
  then show ?case by simp
next
  case (Cons point rest)
  show ?case
  proof (cases "score scene point > b")
    case True
    with Cons.prems have "optimal_loop scene rest (score scene point, Some point) = (b', opt')"
      by simp
    from Cons.IH[OF this] True show ?thesis by fastforce
  next
    case False
    with Cons.prems have "optimal_loop scene rest (b, opt) = (b', opt')"
      by simp
    from Cons.IH[OF this] False show ?thesis by fastforce
  qed
qed

lemma findOptimalPoint_argmax:
  assumes "\<exists>p \<in> set frontier. - 1 < score scene p"
  shows "\<exists>p \<in> set frontier. findOptimalPoint scene frontier = Some p \<and>
           (\<forall>q \<in> set frontier. score scene q \<le> score scene p)"
proof -
  from assms have ne: "frontier \<noteq> []" by auto
  obtain b' opt' where r: "optimal_loop scene frontier (- 1, None) = (b', opt')"
    by (cases "optimal_loop scene frontier (- 1, None)")
  from optimal_loop_result[OF r] assms
  obtain p where "p \<in> set frontier" "opt' = Some p" "b' = score scene p"
    "\<forall>q \<in> set frontier. score scene q \<le> b'"
    by fastforce
  with ne r show ?thesis by (auto simp: findOptimalPoint_def)
qed

lemma findOptimalPoint_unassigned:
  assumes "frontier \<noteq> []" "\<forall>p \<in> set frontier. score scene p \<le> - 1"
  shows "findOptimalPoint scene frontier = None"
proof -
  obtain b' opt' where r: "optimal_loop scene frontier (- 1, None) = (b', opt')"
    by (cases "optimal_loop scene frontier (- 1, None)")
  from optimal_loop_result[OF r] assms(2) have "opt' = None" by fastforce
  with assms(1) r show ?thesis by (simp add: findOptimalPoint_def)
qed

text \<open>
  C2. \<open>findOptimalPoint\<close> is to return a member of a non-empty frontier, the arg-max of
  the scene-weighted score. It does so only when some score exceeds the initial
  \<open>best_score = -1.0\<close> (\<open>findOptimalPoint_argmax\<close>); when every score is at most \<open>-1\<close>
  no point is ever assigned (\<open>findOptimalPoint_unassigned\<close>). The first test point of
  \<open>main.cpp\<close> (performance 50, power 100, thermal 30), alone on the frontier under the
  default scene, scores \<open>-19\<close>: the function returns the never-assigned local.
\<close>

theorem findOptimalPoint_test_point_unassigned:
  "findOptimalPoint SCENE_UNKNOWN
     [\<lparr>performance = 50, power_consumption = 100, thermal_impact = 30, parameters = []\<rparr>]
   = None"
  by (simp add: findOptimalPoint_def score_def scene_weights_def)

subsection \<open>Composite experience score\<close>

text \<open>
  C6. For every metrics snapshot and every weight configuration, \<open>calculateCES\<close> returns
  a value in the closed interval from 0 to 100.
\<close>

theorem calculateCES_clamped:
  "0 \<le> calculateCES cfg metrics \<and> calculateCES cfg metrics \<le> 100"
  by (simp add: calculateCES_def std_max_def std_min_def Let_def)

lemma calculateCES_extremes:
  "calculateCES \<lparr>enable_engine = True, scheduling_interval = 5, optimization_enabled = True,
       responsiveness_weight = 0.3, fluency_weight = 0.3, efficiency_weight = 0.2,
       thermal_weight = 0.2, current_scene = SCENE_UNKNOWN\<rparr>
     \<lparr>cpu_usage = 100, memory_usage = 100, gpu_usage = 0, thermal_state = 100,
      battery_level = 100, responsiveness_score = 0, fluency_score = 0,
      efficiency_score = 0, ces_score = 0\<rparr> = 0"
  "calculateCES \<lparr>enable_engine = True, scheduling_interval = 5, optimization_enabled = True,
       responsiveness_weight = 1, fluency_weight = 1, efficiency_weight = 1,
       thermal_weight = 0, current_scene = SCENE_UNKNOWN\<rparr>
     \<lparr>cpu_usage = 0, memory_usage = 0, gpu_usage = 0, thermal_state = 0,
      battery_level = 100, responsiveness_score = 100, fluency_score = 100,
      efficiency_score = 100, ces_score = 0\<rparr> = 100"
  by (simp_all add: calculateCES_def std_max_def std_min_def Let_def)


subsection \<open>Start and stop\<close>

lemma stop_not_running: "\<not> running e \<Longrightarrow> stop e = e"
  by (simp add: stop_def)

lemma running_stop: "\<not> running (stop e)"
  by (simp add: stop_def logInfo_def)

text \<open>
  C8. \<open>stop()\<close> on an engine that is not running changes nothing. Hence a second
  \<open>stop()\<close> right after a first one, in particular after \<open>start()\<close>, returns the
  state the first one left, and writes no second shutdown line to the log.
\<close>

theorem stop_idempotent:
  "(\<not> running e \<longrightarrow> stop e = e)
   \<and> stop (stop e) = stop e
   \<and> stop (stop (snd (start e))) = stop (snd (start e))
   \<and> log (stop (stop (snd (start e)))) = log (stop (snd (start e)))"
  by (simp add: stop_not_running running_stop)

theorem stop_idempotent_witness:
  "\<not> running initial_engine
   \<and> stop initial_engine = initial_engine
   \<and> fst (start initial_engine)
   \<and> running (snd (start initial_engine))
   \<and> log (stop (stop (snd (start initial_engine))))
       = [(INFO, ''UIEE core engine started''), (INFO, ''UIEE core engine stopped'')]"
  using stop_idempotent[of initial_engine]
  by (simp add: initial_engine_def start_def stop_def logInfo_def)

subsection \<open>History buffers\<close>

text \<open>
  The appends keep the bounds. A performance history of at most 1000 entries has at
  most 1000 entries after \<open>mainLoop\<close> records a sample, an evolution history of at
  most 100 entries has at most 100 after \<open>updateEvolutionState\<close>; the new entry goes
  to the end, and when the buffer was full the oldest entry (the first) is the one
  dropped. \<open>mainLoop\<close> is the only writer of the performance history, which starts
  empty.
\<close>

theorem history_buffers_bounded:
  "(length (performance_history e) \<le> 1000 \<longrightarrow>
      length (performance_history (mainLoop_record metrics e)) \<le> 1000 \<and>
      performance_history (mainLoop_record metrics e) =
        (if length (performance_history e) = 1000 then tl (performance_history e)
         else performance_history e) @ [metrics])
   \<and> (length (evolution_history e) \<le> 100 \<longrightarrow>
      length (evolution_history (updateEvolutionState h e)) \<le> 100 \<and>
      evolution_history (updateEvolutionState h e) =
        (if \<not> evolution_active e \<or> \<not> has_population_manager e then evolution_history e
         else (if length (evolution_history e) = 100 then tl (evolution_history e)
               else evolution_history e) @ [h\<lparr>generation := current_generation e\<rparr>]))"
  by (cases "evolution_history e")
     (auto simp: mainLoop_record_def updateEvolutionState_def MAX_HISTORY_SIZE_def Let_def)

theorem history_buffers_bounded_witness:
  "length (performance_history
     (mainLoop_record
        \<lparr>cpu_usage = 7, memory_usage = 0, gpu_usage = 0, thermal_state = 0, battery_level = 100,
         responsiveness_score = 93, fluency_score = 100, efficiency_score = 100, ces_score = 78\<rparr>
        (initial_engine\<lparr>performance_history :=
           replicate 1000
             \<lparr>cpu_usage = 0, memory_usage = 0, gpu_usage = 0, thermal_state = 0, battery_level = 100,
              responsiveness_score = 100, fluency_score = 100, efficiency_score = 100,
              ces_score = 80\<rparr>\<rparr>))) = 1000
   \<and> last (performance_history
     (mainLoop_record
        \<lparr>cpu_usage = 7, memory_usage = 0, gpu_usage = 0, thermal_state = 0, battery_level = 100,
         responsiveness_score = 93, fluency_score = 100, efficiency_score = 100, ces_score = 78\<rparr>
        (initial_engine\<lparr>performance_history :=
           replicate 1000
             \<lparr>cpu_usage = 0, memory_usage = 0, gpu_usage = 0, thermal_state = 0, battery_level = 100,
              responsiveness_score = 100, fluency_score = 100, efficiency_score = 100,
              ces_score = 80\<rparr>\<rparr>)))
      = \<lparr>cpu_usage = 7, memory_usage = 0, gpu_usage = 0, thermal_state = 0, battery_level = 100,
         responsiveness_score = 93, fluency_score = 100, efficiency_score = 100, ces_score = 78\<rparr>
   \<and> evolution_history
        (updateEvolutionState
           \<lparr>generation = 0, best_fitness = 2, average_fitness = 1, diversity_score = 0,
            timestamp = 5, best_parameters = []\<rparr>
           (initial_engine\<lparr>evolution_active := True, current_generation := 101,
              evolution_history :=
                \<lparr>generation = 1, best_fitness = 1, average_fitness = 1, diversity_score = 0,
                 timestamp = 0, best_parameters = []\<rparr> #
                replicate 99
                  \<lparr>generation = 2, best_fitness = 1, average_fitness = 1, diversity_score = 0,
                   timestamp = 1, best_parameters = []\<rparr>\<rparr>))
      = replicate 99
          \<lparr>generation = 2, best_fitness = 1, average_fitness = 1, diversity_score = 0,
           timestamp = 1, best_parameters = []\<rparr> @
        [\<lparr>generation = 101, best_fitness = 2, average_fitness = 1, diversity_score = 0,
          timestamp = 5, best_parameters = []\<rparr>]"
  using history_buffers_bounded
    [of "initial_engine\<lparr>performance_history :=
           replicate 1000
             \<lparr>cpu_usage = 0, memory_usage = 0, gpu_usage = 0, thermal_state = 0, battery_level = 100,
              responsiveness_score = 100, fluency_score = 100, efficiency_score = 100,
              ces_score = 80\<rparr>\<rparr>"
        "\<lparr>cpu_usage = 7, memory_usage = 0, gpu_usage = 0, thermal_state = 0, battery_level = 100,
         responsiveness_score = 93, fluency_score = 100, efficiency_score = 100, ces_score = 78\<rparr>"]
    history_buffers_bounded
    [of "initial_engine\<lparr>evolution_active := True, current_generation := 101,
              evolution_history :=
                \<lparr>generation = 1, best_fitness = 1, average_fitness = 1, diversity_score = 0,
                 timestamp = 0, best_parameters = []\<rparr> #
                replicate 99
                  \<lparr>generation = 2, best_fitness = 1, average_fitness = 1, diversity_score = 0,
                   timestamp = 1, best_parameters = []\<rparr>\<rparr>"
        _
        "\<lparr>generation = 0, best_fitness = 2, average_fitness = 1, diversity_score = 0,
            timestamp = 5, best_parameters = []\<rparr>"]
  by (simp add: initial_engine_def)

lemma mainLoop_record_length:
  "length (performance_history e) \<le> 1000 \<Longrightarrow>
     length (performance_history (mainLoop_record metrics e)) \<le> 1000"
  by (auto simp: mainLoop_record_def MAX_HISTORY_SIZE_def Let_def)

lemma performance_history_reachable:
  "length (performance_history e) \<le> 1000 \<Longrightarrow>
   length (performance_history (fold mainLoop_record ms e)) \<le> 1000"
  by (induction ms arbitrary: e) (simp_all add: mainLoop_record_length)

lemma updateEvolutionState_length:
  "length (evolution_history e) \<le> 100 \<Longrightarrow>
     length (evolution_history (updateEvolutionState h e)) \<le> 100"
  by (auto simp: updateEvolutionState_def Let_def)

lemma evolution_history_reachable:
  "length (evolution_history e) \<le> 100 \<Longrightarrow>
   length (evolution_history (fold updateEvolutionState hs e)) \<le> 100"
  by (induction hs arbitrary: e) (simp_all add: updateEvolutionState_length)

lemma loadEvolutionData_length:
  "files filepath = Some ls \<Longrightarrow>
     length (evolution_history (loadEvolutionData files read_entry filepath e)) = length ls - 1"
  by (simp add: loadEvolutionData_def logInfo_def)

lemma updateEvolutionState_over_cap:
  "evolution_active e \<Longrightarrow> has_population_manager e \<Longrightarrow> 100 \<le> length (evolution_history e) \<Longrightarrow>
     length (evolution_history (updateEvolutionState h e)) = length (evolution_history e)"
  by (simp add: updateEvolutionState_def Let_def)

text \<open>
  C9. Both histories are to be bounded queues, the evolution history never above 100
  entries. \<open>updateEvolutionState\<close> keeps that bound, but \<open>loadEvolutionData\<close> does not:
  it pushes one entry per data line of the file and never looks at the size. After a
  file of 101 data lines is loaded into a new engine the history has 101 entries; and
  since \<open>updateEvolutionState\<close> erases a single entry per append, the history still
  has 101 entries after the evolution is started and a generation is recorded
  (\<open>updateEvolutionState_over_cap\<close>: from 100 entries on, the size never shrinks).
\<close>

theorem loadEvolutionData_exceeds_cap:
  "length (evolution_history
     (loadEvolutionData evolution_file_101 read_entry
        ''/data/adb/modules/uiee_smart_engine/data/evolution.csv'' initial_engine)) = 101
   \<and> length (evolution_history
     (updateEvolutionState h
        (startLongTermEvolution
           (loadEvolutionData evolution_file_101 read_entry
              ''/data/adb/modules/uiee_smart_engine/data/evolution.csv'' initial_engine)))) = 101"
  by (simp add: loadEvolutionData_def evolution_file_101_def startLongTermEvolution_def
      updateEvolutionState_def logInfo_def initial_engine_def Let_def)

theorem loadEvolutionData_exceeds_cap_witness:
  "length (evolution_history
     (loadEvolutionData evolution_file_101
        (\<lambda>line. \<lparr>generation = 7, best_fitness = 0.5, average_fitness = 0.4,
                  diversity_score = 0.1, timestamp = 0, best_parameters = []\<rparr>)
        ''/data/adb/modules/uiee_smart_engine/data/evolution.csv'' initial_engine)) = 101
   \<and> length (evolution_history
     (updateEvolutionState
        \<lparr>generation = 0, best_fitness = 0.6, average_fitness = 0.5, diversity_score = 0.1,
         timestamp = 30, best_parameters = []\<rparr>
        (startLongTermEvolution
           (loadEvolutionData evolution_file_101
              (\<lambda>line. \<lparr>generation = 7, best_fitness = 0.5, average_fitness = 0.4,
                        diversity_score = 0.1, timestamp = 0, best_parameters = []\<rparr>)
              ''/data/adb/modules/uiee_smart_engine/data/evolution.csv'' initial_engine)))) = 101"
  using loadEvolutionData_exceeds_cap
    [of "\<lambda>line. \<lparr>generation = 7, best_fitness = 0.5, average_fitness = 0.4,
                  diversity_score = 0.1, timestamp = 0, best_parameters = []\<rparr>"
        "\<lparr>generation = 0, best_fitness = 0.6, average_fitness = 0.5, diversity_score = 0.1,
         timestamp = 30, best_parameters = []\<rparr>"]
  by simp

subsection \<open>Convergence check\<close>

lemma consecutive_generations_back:
  assumes "\<forall>i. Suc i < length h \<longrightarrow> generation (h ! Suc i) = generation (h ! i) + 1"
    and "i + k < length h"
  shows "generation (h ! (i + k)) = generation (h ! i) + int k"
  using assms(2)
proof (induction k)
  case 0
  then show ?case by simp
next
  case (Suc k)
  then have "generation (h ! Suc (i + k)) = generation (h ! (i + k)) + 1"
    using assms(1) by simp
  with Suc show ?case by simp
qed

text \<open>
  C7, as the code has it. \<open>checkEvolutionConvergence\<close> changes nothing when there is no
  population manager or the history has fewer than 10 entries. Otherwise it compares
  the best fitness of the latest entry with that of the tenth entry from the end
  (index \<open>size - 10\<close>), which is nine entries before the latest: when one entry is
  recorded per generation, that is the value of nine generations earlier. It clears
  \<open>evolution_active_\<close> (so that the loop condition fails) and logs exactly when the
  absolute difference is below the threshold; otherwise it changes nothing.
\<close>

theorem checkEvolutionConvergence_tenth_latest:
  "(\<not> has_population_manager e \<or> length (evolution_history e) < 10 \<longrightarrow>
      checkEvolutionConvergence e = e)
   \<and> (has_population_manager e \<and> 10 \<le> length (evolution_history e) \<longrightarrow>
       (if \<bar>best_fitness (evolution_history e ! (length (evolution_history e) - 1)) -
            best_fitness (evolution_history e ! (length (evolution_history e) - 10))\<bar>
             < convergence_threshold (evolution_config e)
        then \<not> evolution_active (checkEvolutionConvergence e) \<and>
             \<not> evolution_loop_condition (checkEvolutionConvergence e) \<and>
             checkEvolutionConvergence e =
               e\<lparr>evolution_active := False,
                 log := log e @ [(INFO, ''evolution converged, stopping the evolution process'')]\<rparr>
        else checkEvolutionConvergence e = e))
   \<and> (10 \<le> length (evolution_history e) \<and>
       (\<forall>i. Suc i < length (evolution_history e) \<longrightarrow>
          generation (evolution_history e ! Suc i) = generation (evolution_history e ! i) + 1) \<longrightarrow>
       generation (evolution_history e ! (length (evolution_history e) - 10))
         = generation (last (evolution_history e)) - 9)"
proof (intro conjI impI)
  assume "\<not> has_population_manager e \<or> length (evolution_history e) < 10"
  then show "checkEvolutionConvergence e = e"
    by (auto simp: checkEvolutionConvergence_def)
next
  assume a: "has_population_manager e \<and> 10 \<le> length (evolution_history e)"
  then have ne: "evolution_history e \<noteq> []" by auto
  show "if \<bar>best_fitness (evolution_history e ! (length (evolution_history e) - 1)) -
            best_fitness (evolution_history e ! (length (evolution_history e) - 10))\<bar>
             < convergence_threshold (evolution_config e)
        then \<not> evolution_active (checkEvolutionConvergence e) \<and>
             \<not> evolution_loop_condition (checkEvolutionConvergence e) \<and>
             checkEvolutionConvergence e =
               e\<lparr>evolution_active := False,
                 log := log e @ [(INFO, ''evolution converged, stopping the evolution process'')]\<rparr>
        else checkEvolutionConvergence e = e"
    using a ne
    by (simp add: checkEvolutionConvergence_def Let_def last_conv_nth logInfo_def
        evolution_loop_condition_def)
next
  assume a: "10 \<le> length (evolution_history e) \<and>
       (\<forall>i. Suc i < length (evolution_history e) \<longrightarrow>
          generation (evolution_history e ! Suc i) = generation (evolution_history e ! i) + 1)"
  let ?h = "evolution_history e"
  from a have ne: "?h \<noteq> []" by auto
  have "generation (?h ! ((length ?h - 10) + 9)) = generation (?h ! (length ?h - 10)) + int 9"
    using a by (intro consecutive_generations_back) auto
  moreover have "(length ?h - 10) + 9 = length ?h - 1" using a by simp
  ultimately show "generation (?h ! (length ?h - 10)) = generation (last ?h) - 9"
    using ne by (simp add: last_conv_nth)
qed

text \<open>
  The claim as stated fails: in \<open>eleven_generations\<close> the entry recorded 10 generations
  before the latest has the same best fitness as the latest, yet the check does not
  stop the evolution, because it reads the entry of 9 generations before.
\<close>

theorem checkEvolutionConvergence_counterexample:
  "generation (last eleven_generations) - 10 = generation (eleven_generations ! 0)
   \<and> \<bar>best_fitness (last eleven_generations) - best_fitness (eleven_generations ! 0)\<bar>
        < convergence_threshold (evolution_config initial_engine)
   \<and> evolution_active
        (checkEvolutionConvergence
           (initial_engine\<lparr>evolution_active := True, current_generation := 10,
                           evolution_history := eleven_generations\<rparr>))
   \<and> checkEvolutionConvergence
           (initial_engine\<lparr>evolution_active := True, current_generation := 10,
                           evolution_history := eleven_generations\<rparr>)
       = initial_engine\<lparr>evolution_active := True, current_generation := 10,
                           evolution_history := eleven_generations\<rparr>"
  by (simp add: eleven_generations_def upt_rec checkEvolutionConvergence_def initial_engine_def Let_def)


theorem checkEvolutionConvergence_tenth_latest_witness:
  "checkEvolutionConvergence initial_engine = initial_engine
   \<and> length ten_flat_generations = 10
   \<and> \<not> evolution_active
        (checkEvolutionConvergence
           (initial_engine\<lparr>evolution_active := True, current_generation := 9,
                           evolution_history := ten_flat_generations\<rparr>))
   \<and> generation (ten_flat_generations ! 0) = generation (last ten_flat_generations) - 9"
proof -
  let ?e = "initial_engine\<lparr>evolution_active := True, current_generation := 9,
                           evolution_history := ten_flat_generations\<rparr>"
  have len: "length ten_flat_generations = 10"
    by (simp add: ten_flat_generations_def)
  have consecutive: "\<forall>i. Suc i < length (evolution_history ?e) \<longrightarrow>
      generation (evolution_history ?e ! Suc i) = generation (evolution_history ?e ! i) + 1"
    by (simp add: ten_flat_generations_def)
  have flat: "\<bar>best_fitness (evolution_history ?e ! (length (evolution_history ?e) - 1)) -
            best_fitness (evolution_history ?e ! (length (evolution_history ?e) - 10))\<bar>
             < convergence_threshold (evolution_config ?e)"
    by (simp add: ten_flat_generations_def initial_engine_def)
  have pm: "has_population_manager ?e" by (simp add: initial_engine_def)
  have empty: "length (evolution_history initial_engine) < 10" by (simp add: initial_engine_def)
  show ?thesis
    using checkEvolutionConvergence_tenth_latest[of initial_engine]
      checkEvolutionConvergence_tenth_latest[of ?e] len consecutive flat pm empty
    by simp
qed

subsection \<open>Adaptive sampling\<close>







subsection \<open>Task registry\<close>

lemma find_None_pid: "find (\<lambda>t. pid t = p) ts = None \<longleftrightarrow> p \<notin> pid ` set ts"
  by (auto simp: find_None_iff)

lemma active_tasks_addTask:
  "active_tasks (addTask task e) =
     (if pid task \<in> pid ` set (active_tasks e) then active_tasks e else active_tasks e @ [task])"
proof (cases "find (\<lambda>t. pid t = pid task) (active_tasks e)")
  case None
  then have "pid task \<notin> pid ` set (active_tasks e)" by (simp add: find_None_pid)
  with None show ?thesis by (simp add: addTask_def logInfo_def)
next
  case (Some t)
  then have "find (\<lambda>t. pid t = pid task) (active_tasks e) \<noteq> None" by simp
  then have "pid task \<in> pid ` set (active_tasks e)" by (simp add: find_None_pid)
  with Some show ?thesis by (simp add: addTask_def)
qed

lemma erase_first_absent: "\<forall>x \<in> set xs. \<not> P x \<Longrightarrow> erase_first P xs = xs"
  by (induction xs) auto

lemma erase_first_distinct:
  "distinct (map f xs) \<Longrightarrow> erase_first (\<lambda>x. f x = k) xs = filter (\<lambda>x. f x \<noteq> k) xs"
proof (induction xs)
  case Nil
  then show ?case by simp
next
  case (Cons x xs)
  show ?case
  proof (cases "f x = k")
    case True
    from Cons.prems have "f x \<notin> f ` set xs" by simp
    with True have "\<forall>y \<in> set xs. f y \<noteq> k" by blast
    then have "filter (\<lambda>x. f x \<noteq> k) xs = xs" by (simp add: filter_id_conv)
    with True show ?thesis by simp
  next
    case False
    with Cons show ?thesis by simp
  qed
qed

lemma length_erase_first: "length xs \<le> length (erase_first P xs) + 1"
  by (induction xs) auto

lemma set_erase_first: "set (erase_first P xs) \<subseteq> set xs"
  by (induction xs) auto

lemma distinct_erase_first: "distinct (map f xs) \<Longrightarrow> distinct (map f (erase_first P xs))"
proof (induction xs)
  case Nil
  then show ?case by simp
next
  case (Cons x xs)
  then show ?case using set_erase_first[of P xs] by auto
qed

lemma active_tasks_removeTask:
  "active_tasks (removeTask p e) = erase_first (\<lambda>task. pid task = p) (active_tasks e)"
proof (cases "find (\<lambda>task. pid task = p) (active_tasks e)")
  case None
  then have "\<forall>t \<in> set (active_tasks e). \<not> pid t = p" by (auto simp: find_None_iff)
  then show ?thesis using None by (simp add: removeTask_def erase_first_absent)
next
  case (Some t)
  then show ?thesis by (simp add: removeTask_def logInfo_def)
qed

lemma removeTask_absent: "p \<notin> pid ` set (active_tasks e) \<Longrightarrow> removeTask p e = e"
  by (cases "find (\<lambda>task. pid task = p) (active_tasks e)")
     (auto simp: removeTask_def find_Some_iff)

lemma detect_new_tasks_result:
  "\<exists>news. active_tasks (detect_new_tasks gpn clock pids e) = active_tasks e @ news
     \<and> (distinct (map pid (active_tasks e)) \<longrightarrow> distinct (map pid (active_tasks e @ news)))
     \<and> pid ` set news = set pids - pid ` set (active_tasks e)
     \<and> (\<forall>t \<in> set news. t = \<lparr>name = gpn (pid t), pid = pid t, priority = 0,
            app_type = ''unknown'', cpu_affinity = None, is_foreground = False,
            start_time = clock (pid t)\<rparr>)"
proof (induction pids arbitrary: e)
  case Nil
  show ?case by (rule exI[of _ "[]"]) simp
next
  case (Cons p pids)
  show ?case
  proof (cases "list_ex (\<lambda>task. pid task = p) (active_tasks e)")
    case True
    then have pin: "p \<in> pid ` set (active_tasks e)" by (auto simp: list_ex_iff)
    from Cons.IH[of e] obtain news where
      n: "active_tasks (detect_new_tasks gpn clock pids e) = active_tasks e @ news"
         "distinct (map pid (active_tasks e)) \<longrightarrow> distinct (map pid (active_tasks e @ news))"
         "pid ` set news = set pids - pid ` set (active_tasks e)"
         "\<forall>t \<in> set news. t = \<lparr>name = gpn (pid t), pid = pid t, priority = 0,
            app_type = ''unknown'', cpu_affinity = None, is_foreground = False,
            start_time = clock (pid t)\<rparr>"
      by blast
    show ?thesis
      apply (rule exI[of _ news])
      using True n pin by auto
  next
    case False
    then have pnin: "p \<notin> pid ` set (active_tasks e)" by (auto simp: list_ex_iff)
    let ?t = "\<lparr>name = gpn p, pid = p, priority = 0, app_type = ''unknown'',
               cpu_affinity = None, is_foreground = False, start_time = clock p\<rparr>"
    let ?e = "logInfo (''new task detected: '' @ name ?t) (e\<lparr>active_tasks := active_tasks e @ [?t]\<rparr>)"
    have at: "active_tasks ?e = active_tasks e @ [?t]" by (simp add: logInfo_def)
    from Cons.IH[of ?e] obtain news where
      n: "active_tasks (detect_new_tasks gpn clock pids ?e) = active_tasks ?e @ news"
         "distinct (map pid (active_tasks ?e)) \<longrightarrow> distinct (map pid (active_tasks ?e @ news))"
         "pid ` set news = set pids - pid ` set (active_tasks ?e)"
         "\<forall>t \<in> set news. t = \<lparr>name = gpn (pid t), pid = pid t, priority = 0,
            app_type = ''unknown'', cpu_affinity = None, is_foreground = False,
            start_time = clock (pid t)\<rparr>"
      by blast
    have step: "detect_new_tasks gpn clock (p # pids) e = detect_new_tasks gpn clock pids ?e"
      using False by (simp add: Let_def)
    show ?thesis
      apply (rule exI[of _ "?t # news"])
      unfolding step
      using n pnin at by auto
  qed
qed

lemma monitoringLoop_tick_result:
  "\<exists>news. active_tasks (monitoringLoop_tick gpn clock pids e)
             = filter (\<lambda>task. pid task \<in> set pids) (active_tasks e) @ news
     \<and> (distinct (map pid (active_tasks e)) \<longrightarrow>
          distinct (map pid (active_tasks (monitoringLoop_tick gpn clock pids e))))
     \<and> pid ` set news = set pids - pid ` set (active_tasks e)
     \<and> (\<forall>t \<in> set news. t = \<lparr>name = gpn (pid t), pid = pid t, priority = 0,
            app_type = ''unknown'', cpu_affinity = None, is_foreground = False,
            start_time = clock (pid t)\<rparr>)"
proof -
  let ?e = "e\<lparr>active_tasks := filter (\<lambda>task. pid task \<in> set pids) (active_tasks e)\<rparr>"
  from detect_new_tasks_result[of gpn clock pids ?e] obtain news where
    n: "active_tasks (detect_new_tasks gpn clock pids ?e) = active_tasks ?e @ news"
       "distinct (map pid (active_tasks ?e)) \<longrightarrow> distinct (map pid (active_tasks ?e @ news))"
       "pid ` set news = set pids - pid ` set (active_tasks ?e)"
       "\<forall>t \<in> set news. t = \<lparr>name = gpn (pid t), pid = pid t, priority = 0,
            app_type = ''unknown'', cpu_affinity = None, is_foreground = False,
            start_time = clock (pid t)\<rparr>"
    by blast
  have d: "distinct (map pid (active_tasks e)) \<Longrightarrow> distinct (map pid (active_tasks ?e))"
    by (simp add: distinct_map_filter)
  have s: "set pids - pid ` set (active_tasks ?e) = set pids - pid ` set (active_tasks e)"
    by auto
  have "active_tasks (monitoringLoop_tick gpn clock pids e)
          = filter (\<lambda>task. pid task \<in> set pids) (active_tasks e) @ news"
    using n(1) by (simp add: monitoringLoop_tick_def)
  moreover have "distinct (map pid (active_tasks e)) \<longrightarrow>
          distinct (map pid (active_tasks (monitoringLoop_tick gpn clock pids e)))"
    using n(1,2) d by (simp only: monitoringLoop_tick_def) blast
  moreover have "pid ` set news = set pids - pid ` set (active_tasks e)"
    using n(3) s by simp
  ultimately show ?thesis using n(4) by blast
qed

text \<open>
  C10. The task list starts empty, and no two of its entries ever share a pid: when
  the pids are distinct they are still distinct after \<open>addTask\<close>, \<open>removeTask\<close>, a
  pass of the monitor loop and \<open>updateTaskPriorities\<close>. \<open>addTask\<close> appends the task
  when no entry has its pid and leaves the list alone otherwise; \<open>removeTask\<close> removes
  at most one entry (the one with the pid), and nothing when the pid is absent; the
  monitor pass keeps the tasks whose pid is still running and adds tasks only for
  the running pids that no entry has.
\<close>

theorem active_tasks_unique_pids:
  "distinct (map pid (active_tasks initial_engine))
   \<and> (distinct (map pid (active_tasks e)) \<longrightarrow>
        distinct (map pid (active_tasks (addTask task e)))
        \<and> distinct (map pid (active_tasks (removeTask p e)))
        \<and> distinct (map pid (active_tasks (monitoringLoop_tick gpn clock pids e)))
        \<and> distinct (map pid (active_tasks (updateTaskPriorities e)))
        \<and> active_tasks (removeTask p e) = filter (\<lambda>t. pid t \<noteq> p) (active_tasks e))
   \<and> active_tasks (addTask task e)
        = (if pid task \<in> pid ` set (active_tasks e) then active_tasks e
           else active_tasks e @ [task])
   \<and> length (active_tasks e) \<le> length (active_tasks (removeTask p e)) + 1
   \<and> (p \<notin> pid ` set (active_tasks e) \<longrightarrow> removeTask p e = e)
   \<and> (\<exists>news. active_tasks (monitoringLoop_tick gpn clock pids e)
                = filter (\<lambda>t. pid t \<in> set pids) (active_tasks e) @ news
              \<and> pid ` set news = set pids - pid ` set (active_tasks e))"
proof (intro conjI impI)
  show "distinct (map pid (active_tasks initial_engine))"
    by (simp add: initial_engine_def)
next
  assume d: "distinct (map pid (active_tasks e))"
  then show "distinct (map pid (active_tasks (addTask task e)))"
    by (simp add: active_tasks_addTask)
  from d show "distinct (map pid (active_tasks (removeTask p e)))"
    by (simp add: active_tasks_removeTask distinct_erase_first)
  from d monitoringLoop_tick_result[of gpn clock pids e]
  show "distinct (map pid (active_tasks (monitoringLoop_tick gpn clock pids e)))"
    by blast
  have "map pid (active_tasks (updateTaskPriorities e)) = map pid (active_tasks e)"
    by (simp add: updateTaskPriorities_def comp_def)
  with d show "distinct (map pid (active_tasks (updateTaskPriorities e)))"
    by simp
  from d show "active_tasks (removeTask p e) = filter (\<lambda>t. pid t \<noteq> p) (active_tasks e)"
    by (simp add: active_tasks_removeTask erase_first_distinct)
next
  show "active_tasks (addTask task e)
        = (if pid task \<in> pid ` set (active_tasks e) then active_tasks e
           else active_tasks e @ [task])"
    by (rule active_tasks_addTask)
next
  show "length (active_tasks e) \<le> length (active_tasks (removeTask p e)) + 1"
    using length_erase_first[of "active_tasks e" "\<lambda>task. pid task = p"]
    by (simp add: active_tasks_removeTask)
next
  assume "p \<notin> pid ` set (active_tasks e)"
  then show "removeTask p e = e" by (rule removeTask_absent)
next
  from monitoringLoop_tick_result[of gpn clock pids e]
  show "\<exists>news. active_tasks (monitoringLoop_tick gpn clock pids e)
                = filter (\<lambda>t. pid t \<in> set pids) (active_tasks e) @ news
              \<and> pid ` set news = set pids - pid ` set (active_tasks e)"
    by blast
qed

theorem active_tasks_unique_pids_witness:
  "distinct (map pid (active_tasks two_tasks))
   \<and> map pid (active_tasks
        (addTask \<lparr>name = ''other'', pid = 1234, priority = 1, app_type = ''media'',
                  cpu_affinity = None, is_foreground = False, start_time = 7\<rparr> two_tasks))
       = [1234, 1]
   \<and> map pid (active_tasks (removeTask 1234 two_tasks)) = [1]
   \<and> removeTask 99 two_tasks = two_tasks
   \<and> distinct (map pid (active_tasks
        (monitoringLoop_tick (\<lambda>p. ''proc'') (\<lambda>p. 3) [1, 50, 50] two_tasks)))"
  using active_tasks_unique_pids
    [of two_tasks
        "\<lparr>name = ''other'', pid = 1234, priority = 1, app_type = ''media'',
          cpu_affinity = None, is_foreground = False, start_time = 7\<rparr>"
        1234 "\<lambda>p. ''proc''" "\<lambda>p. 3" "[1, 50, 50]"]
    active_tasks_unique_pids[of two_tasks _ 99]
  by (simp add: two_tasks_def initial_engine_def)

subsection \<open>Nash equilibrium iteration\<close>

lemma foldl_add_sum_list: "foldl (\<lambda>acc j. acc + f j) a js = a + sum_list (map f js)"
  for a :: real
  by (induction js arbitrary: a) simp_all


lemma expected_payoff_sum:
  "expected_payoff M s n i = (\<Sum>j\<leftarrow>[0..<n]. s ! j * (M ! i ! j))"
  by (simp add: expected_payoff_def foldl_add_sum_list)















subsection \<open>Configuration file\<close>

lemma stoi_examples:
  "stoi ''abc'' = Inl invalid_argument"
  "stoi '''' = Inl invalid_argument"
  "stoi ''10'' = Inr 10"
  "stoi ''-7'' = Inr (- 7)"
  "stoi ''12abc'' = Inr 12"
  "stoi ''99999999999'' = Inl out_of_range"
  by (simp_all add: stoi_def is_space_def is_digit_def Let_def)

lemma parse_lines_stops:
  "parse_line stod line cfg = Inl ex \<Longrightarrow> parse_lines stod (line # rest) cfg = (Some ex, cfg)"
  by simp

lemma parse_line_malformed_interval:
  "parse_line stod ''scheduling_interval=abc'' cfg = Inl invalid_argument"
  by (simp add: parse_line_def trim_def is_blank_def stoi_def is_space_def is_digit_def Let_def)

lemma parse_line_malformed_weight:
  "stod ''abc'' = Inl invalid_argument \<Longrightarrow>
     parse_line stod ''thermal_weight=abc'' cfg = Inl invalid_argument"
  by (simp add: parse_line_def trim_def is_blank_def Let_def)

lemma loadConfig_no_warning:
  "filter (\<lambda>entry. fst entry = WARNING) (log (snd (loadConfig files stod configPath e)))
     = filter (\<lambda>entry. fst entry = WARNING) (log e)"
  by (auto simp: loadConfig_def logInfo_def logError_def Let_def split: option.splits prod.splits)

text \<open>
  C3. A malformed numeric value on one line is to be skipped with a warning while the
  other lines are still applied. In the code \<open>std::stoi\<close> throws on such a value and
  \<open>loadConfig\<close> has no handler: for a file whose first line is
  \<open>scheduling_interval=abc\<close> and whose second line is \<open>enable_engine=false\<close>, the
  exception leaves \<open>loadConfig\<close>, the second line is never applied (the engine stays
  enabled), and no warning is logged (\<open>loadConfig_no_warning\<close>).
\<close>

theorem loadConfig_malformed_line_throws:
  "loadConfig
     (\<lambda>p. if p = ''/data/adb/modules/uiee_smart_engine/data/config/uiee.conf''
          then Some [''scheduling_interval=abc'', ''enable_engine=false''] else None)
     stod ''/data/adb/modules/uiee_smart_engine/data/config/uiee.conf'' initial_engine
   = (Some invalid_argument,
      logInfo ''using config file: /data/adb/modules/uiee_smart_engine/data/config/uiee.conf''
        initial_engine)
   \<and> enable_engine (config initial_engine)"
  by (simp add: loadConfig_def parse_line_malformed_interval initial_engine_def logInfo_def)

lemma loadConfig_well_formed:
  "loadConfig
     (\<lambda>p. if p = ''/data/adb/modules/uiee_smart_engine/data/config/uiee.conf''
          then Some [''# comment'', ''[system]'', ''scheduling_interval = 10 '', ''enable_engine=false'']
          else None)
     stod ''/data/adb/modules/uiee_smart_engine/data/config/uiee.conf'' initial_engine
   = (None,
      logInfo ''config file loaded: /data/adb/modules/uiee_smart_engine/data/config/uiee.conf''
       (logInfo ''using config file: /data/adb/modules/uiee_smart_engine/data/config/uiee.conf''
        (initial_engine\<lparr>config := (config initial_engine)
            \<lparr>enable_engine := False, scheduling_interval := 10\<rparr>\<rparr>)))"
  by (simp add: loadConfig_def parse_line_def trim_def is_blank_def stoi_def is_space_def
      is_digit_def Let_def initial_engine_def logInfo_def)


end
